theory Spec2Isabelle
  imports Main
begin

section \<open>JavaScript values of the card model\<close>

text \<open>
  The numeric fields of a card (\<open>cardData.military\<close>, \<open>cardData.political\<close>,
  \<open>glory\<close>) and the results of the skill queries hold \<open>undefined\<close>, \<open>null\<close>, a
  number or \<open>NaN\<close>. Numbers are the integers (the doc comments of the source type the
  amounts as integers); a JavaScript double represents them exactly up to \<open>2^53\<close>.
\<close>

datatype jsval = Undefined | Null | Num int | NaN

text \<open>\<open>ToNumber\<close>: \<open>undefined\<close> is \<open>NaN\<close>, \<open>null\<close> is \<open>0\<close>.\<close>

fun toNumber :: "jsval \<Rightarrow> jsval" where
  "toNumber Undefined = NaN"
| "toNumber Null = Num 0"
| "toNumber (Num n) = Num n"
| "toNumber NaN = NaN"

text \<open>The operators \<open>+\<close> and \<open>-\<close> on operands that are not strings, and \<open>Math.max\<close>.\<close>

definition js_plus :: "jsval \<Rightarrow> jsval \<Rightarrow> jsval" where
  "js_plus a b = (case (toNumber a, toNumber b) of (Num x, Num y) \<Rightarrow> Num (x + y) | _ \<Rightarrow> NaN)"

definition js_minus :: "jsval \<Rightarrow> jsval \<Rightarrow> jsval" where
  "js_minus a b = (case (toNumber a, toNumber b) of (Num x, Num y) \<Rightarrow> Num (x - y) | _ \<Rightarrow> NaN)"

definition Math_max :: "jsval \<Rightarrow> jsval \<Rightarrow> jsval" where
  "Math_max a b = (case (toNumber a, toNumber b) of (Num x, Num y) \<Rightarrow> Num (max x y) | _ \<Rightarrow> NaN)"

text \<open>\<open>ToBoolean\<close>: \<open>undefined\<close>, \<open>null\<close>, \<open>0\<close> and \<open>NaN\<close> are falsy.\<close>

fun truthy :: "jsval \<Rightarrow> bool" where
  "truthy (Num n) = (n \<noteq> 0)"
| "truthy _ = False"

text \<open>The operator \<open>||\<close>: the left operand when it is truthy, else the right one.\<close>

definition js_or :: "jsval \<Rightarrow> jsval \<Rightarrow> jsval" where
  "js_or a b = (if truthy a then a else b)"

subsection \<open>parseInt\<close>

text \<open>
  \<open>parseInt(s)\<close> with no radix, on a string of ASCII characters: leading white space is
  skipped, then an optional sign, then a \<open>0x\<close> or \<open>0X\<close> prefix selects radix 16 (radix 10
  otherwise), then the longest run of digits of the radix is read; with no digit the result
  is \<open>NaN\<close>. A missing field (\<open>undefined\<close> or \<open>null\<close>, here \<open>None\<close>) is first turned
  into the string \<open>undefined\<close> or \<open>null\<close>, which starts with no digit.
\<close>

definition isWhiteSpace :: "char \<Rightarrow> bool" where
  "isWhiteSpace c = (of_char c \<in> {9, 10, 11, 12, 13, 32 :: nat})"

definition digitValue :: "char \<Rightarrow> nat option" where
  "digitValue c =
     (let n = (of_char c :: nat) in
      if 48 \<le> n \<and> n \<le> 57 then Some (n - 48)
      else if 97 \<le> n \<and> n \<le> 122 then Some (n - 87)
      else if 65 \<le> n \<and> n \<le> 90 then Some (n - 55)
      else None)"

definition isDigitOf :: "nat \<Rightarrow> char \<Rightarrow> bool" where
  "isDigitOf R c = (case digitValue c of Some d \<Rightarrow> d < R | None \<Rightarrow> False)"

definition stripSign :: "string \<Rightarrow> int \<times> string" where
  "stripSign s =
     (case s of
        [] \<Rightarrow> (1, [])
      | c # r \<Rightarrow> if c = CHR ''-'' then (- 1, r) else if c = CHR ''+'' then (1, r) else (1, s))"

definition stripPrefix :: "string \<Rightarrow> nat \<times> string" where
  "stripPrefix s =
     (case s of
        a # b # r \<Rightarrow>
          if a = CHR ''0'' \<and> (b = CHR ''x'' \<or> b = CHR ''X'') then (16, r) else (10, s)
      | _ \<Rightarrow> (10, s))"

definition digitsValue :: "nat \<Rightarrow> string \<Rightarrow> nat" where
  "digitsValue R Z = foldl (\<lambda>acc c. acc * R + (case digitValue c of Some d \<Rightarrow> d | None \<Rightarrow> 0)) 0 Z"

definition parseIntString :: "string \<Rightarrow> jsval" where
  "parseIntString s =
     (let (sign, s2) = stripSign (dropWhile isWhiteSpace s);
          (R, s3) = stripPrefix s2;
          Z = takeWhile (isDigitOf R) s3
      in if Z = [] then NaN else Num (sign * int (digitsValue R Z)))"

definition parseInt :: "string option \<Rightarrow> jsval" where
  "parseInt v = (case v of None \<Rightarrow> NaN | Some s \<Rightarrow> parseIntString s)"

section \<open>Cards, players and the game\<close>

type_synonym card_ref = nat
type_synonym player_ref = nat

text \<open>
  \<open>cardData\<close>: the printed attributes of a card, as loaded from the card data. The bonus
  fields are strings such as \<open>+2\<close>, read with \<open>parseInt\<close>.
\<close>

record cardData =
  military :: jsval
  political :: jsval
  military_bonus :: "string option"
  political_bonus :: "string option"

text \<open>
  The fields of a \<open>DrawCard\<close> object that the methods below read or write. Objects are
  held by reference: \<open>attachments\<close> and \<open>covertTarget\<close> hold references to other cards,
  \<open>controller\<close> a reference to a player. \<open>covertTarget\<close> is \<open>None\<close> while the property is
  not set. \<open>cardKeywords\<close> is the keyword list that \<open>hasKeyword\<close> reads.
\<close>

record card =
  cardData :: cardData
  controller :: player_ref
  attachments :: "card_ref list"
  cardKeywords :: "string list"
  militarySkillModifier :: int
  politicalSkillModifier :: int
  fate :: int
  glory :: jsval
  bowed :: bool
  inConflict :: bool
  isHonored :: bool
  isDishonored :: bool
  new :: bool
  stealth :: bool
  covert :: bool
  covertTarget :: "card_ref option"

text \<open>
  Modelled from the spec: the class \<open>Player\<close> is not among the sources. The card code
  reads of a player the \<open>phase\<close>, the \<open>discard\<close> pile and the \<open>opponent\<close> (\<open>None\<close> when
  there is none); the payouts of leaving play reach the player's honor, the player's fate
  and the cards the player draws (\<open>playerHonor\<close>, \<open>playerFate\<close>, \<open>cardsDrawn\<close>).
\<close>

record player =
  phase :: string
  discard :: "card_ref list"
  opponent :: "player_ref option"
  playerHonor :: int
  playerFate :: int
  cardsDrawn :: nat

text \<open>The payload of an event: the object literal passed to \<open>raiseEvent\<close>.\<close>

datatype payload =
    SkillChanged card_ref int bool
  | FateChanged card_ref int

text \<open>
  The game: the store of card objects and of player objects, the events raised and the
  messages added so far.
\<close>

record game =
  cardObjects :: "card_ref \<Rightarrow> card"
  playerObjects :: "player_ref \<Rightarrow> player"
  events :: "(string \<times> payload) list"
  messages :: "(string \<times> player_ref \<times> card_ref) list"

definition setCard :: "game \<Rightarrow> card_ref \<Rightarrow> card \<Rightarrow> game" where
  "setCard g r c = g\<lparr>cardObjects := (cardObjects g)(r := c)\<rparr>"

definition setPlayer :: "game \<Rightarrow> player_ref \<Rightarrow> player \<Rightarrow> game" where
  "setPlayer g r p = g\<lparr>playerObjects := (playerObjects g)(r := p)\<rparr>"

text \<open>
  Modelled from the spec: \<open>Game.raiseEvent(name, payload)\<close> is not among the sources. An
  event raised is recorded, with its name and payload, at the end of \<open>events\<close> (the spec:
  every state mutation is observable as a named event with a typed payload); the listeners
  it fires are not modelled.
\<close>

definition raiseEvent :: "game \<Rightarrow> string \<Rightarrow> payload \<Rightarrow> game" where
  "raiseEvent g name p = g\<lparr>events := events g @ [(name, p)]\<rparr>"

text \<open>
  Modelled from the spec: \<open>Game.addMessage\<close> is not among the sources. A message is
  recorded with its format string and its two arguments, the controller and the card.
\<close>

definition addMessage :: "game \<Rightarrow> string \<Rightarrow> player_ref \<Rightarrow> card_ref \<Rightarrow> game" where
  "addMessage g fmt p c = g\<lparr>messages := messages g @ [(fmt, p, c)]\<rparr>"

text \<open>
  Modelled from the spec: \<open>Game.addHonor(player, n)\<close> is not among the sources. It adds
  \<open>n\<close> to the honor of the player (the spec: honor gain or loss on honor status).
\<close>

definition addHonor :: "game \<Rightarrow> player_ref \<Rightarrow> int \<Rightarrow> game" where
  "addHonor g p n = setPlayer g p ((playerObjects g p)\<lparr>playerHonor := playerHonor (playerObjects g p) + n\<rparr>)"

text \<open>
  Modelled from the spec: \<open>Game.addFate(player, n)\<close> is not among the sources. It adds
  \<open>n\<close> to the fate of the player (the spec: fate gain on a keyword).
\<close>

definition addFate :: "game \<Rightarrow> player_ref \<Rightarrow> int \<Rightarrow> game" where
  "addFate g p n =
     setPlayer g p ((playerObjects g p)\<lparr>playerFate := playerFate (playerObjects g p) + n\<rparr>)"

text \<open>
  Modelled from the spec: \<open>Player.drawCardsToHand(n)\<close> is not among the sources. The
  \<open>n\<close> cards drawn are counted (the spec: card draw on a keyword).
\<close>

definition drawCardsToHand :: "game \<Rightarrow> player_ref \<Rightarrow> nat \<Rightarrow> game" where
  "drawCardsToHand g p n =
     setPlayer g p ((playerObjects g p)\<lparr>cardsDrawn := cardsDrawn (playerObjects g p) + n\<rparr>)"

section \<open>DrawCard\<close>

text \<open>
  Modelled from the spec: \<open>BaseCard.hasKeyword\<close> is not among the sources. The spec gives
  a card a keyword list among its printed attributes, and \<open>hasKeyword(k)\<close> is membership
  of \<open>k\<close> in that list.
\<close>

definition hasKeyword :: "card \<Rightarrow> string \<Rightarrow> bool" where
  "hasKeyword c k = (k \<in> set (cardKeywords c))"

definition isCovert :: "card \<Rightarrow> bool" where
  "isCovert c = hasKeyword c ''covert''"

definition hasSincerity :: "card \<Rightarrow> bool" where
  "hasSincerity c = hasKeyword c ''sincerity''"

definition hasCourtesy :: "card \<Rightarrow> bool" where
  "hasCourtesy c = hasKeyword c ''courtesy''"

subsection \<open>honor and dishonor\<close>

definition honor :: "game \<Rightarrow> card_ref \<Rightarrow> game" where
  "honor g this =
     (let c = cardObjects g this in
      if isDishonored c then setCard g this (c\<lparr>isDishonored := False\<rparr>)
      else if \<not> isHonored c then setCard g this (c\<lparr>isHonored := True\<rparr>)
      else g)"

definition dishonor :: "game \<Rightarrow> card_ref \<Rightarrow> game" where
  "dishonor g this =
     (let c = cardObjects g this in
      if isHonored c then setCard g this (c\<lparr>isHonored := False\<rparr>)
      else if \<not> isDishonored c then setCard g this (c\<lparr>isDishonored := True\<rparr>)
      else g)"

subsection \<open>Skill\<close>

text \<open>
  \<open>modifyMilitarySkill(amount, applying = true)\<close> and its political twin: the caller
  that leaves \<open>applying\<close> out passes \<open>True\<close>.
\<close>

definition modifyMilitarySkill :: "game \<Rightarrow> card_ref \<Rightarrow> int \<Rightarrow> bool \<Rightarrow> game" where
  "modifyMilitarySkill g this amount applying =
     (let c = cardObjects g this;
          g1 = setCard g this (c\<lparr>militarySkillModifier := militarySkillModifier c + amount\<rparr>)
      in raiseEvent g1 ''onCardMilitarySkillChanged'' (SkillChanged this amount applying))"

definition modifyPoliticalSkill :: "game \<Rightarrow> card_ref \<Rightarrow> int \<Rightarrow> bool \<Rightarrow> game" where
  "modifyPoliticalSkill g this amount applying =
     (let c = cardObjects g this;
          g1 = setCard g this (c\<lparr>politicalSkillModifier := politicalSkillModifier c + amount\<rparr>)
      in raiseEvent g1 ''onCardPoliticalSkillChanged'' (SkillChanged this amount applying))"

text \<open>
  \<open>getMilitarySkill(printed = false)\<close>. \<open>_.reduce\<close> folds the attachments from the
  left, starting from \<open>0\<close>.
\<close>

definition getMilitarySkill :: "game \<Rightarrow> card_ref \<Rightarrow> bool \<Rightarrow> jsval" where
  "getMilitarySkill g this printed =
     (let c = cardObjects g this in
      if phase (playerObjects g (controller c)) = ''setup'' \<or> printed
      then js_or (military (cardData c)) Undefined
      else if military (cardData c) \<noteq> Null \<and> military (cardData c) \<noteq> Undefined then
        (let skillFromAttachments =
               foldl (\<lambda>skill a. js_plus skill (parseInt (military_bonus (cardData (cardObjects g a)))))
                 (Num 0) (attachments c);
             skillFromGlory =
               js_minus (if isHonored c then glory c else Num 0)
                 (if isDishonored c then glory c else Num 0)
         in Math_max (Num 0)
              (js_plus
                 (js_plus (js_plus (military (cardData c)) (Num (militarySkillModifier c)))
                    skillFromAttachments)
                 skillFromGlory))
      else Null)"

definition getPoliticalSkill :: "game \<Rightarrow> card_ref \<Rightarrow> bool \<Rightarrow> jsval" where
  "getPoliticalSkill g this printed =
     (let c = cardObjects g this in
      if phase (playerObjects g (controller c)) = ''setup'' \<or> printed
      then js_or (political (cardData c)) Undefined
      else if political (cardData c) \<noteq> Null \<and> political (cardData c) \<noteq> Undefined then
        (let skillFromAttachments =
               foldl (\<lambda>skill a. js_plus skill (parseInt (political_bonus (cardData (cardObjects g a)))))
                 (Num 0) (attachments c);
             skillFromGlory =
               js_minus (if isHonored c then glory c else Num 0)
                 (if isDishonored c then glory c else Num 0)
         in Math_max (Num 0)
              (js_plus
                 (js_plus (js_plus (political (cardData c)) (Num (politicalSkillModifier c)))
                    skillFromAttachments)
                 skillFromGlory))
      else Null)"

subsection \<open>Fate\<close>

definition modifyFate :: "game \<Rightarrow> card_ref \<Rightarrow> int \<Rightarrow> game" where
  "modifyFate g this amount =
     (let c = cardObjects g this;
          oldFate = fate c;
          c1 = c\<lparr>fate := fate c + amount\<rparr>;
          c2 = (if fate c1 < 0 then c1\<lparr>fate := 0\<rparr> else c1);
          g1 = setCard g this c2
      in raiseEvent g1 ''onCardFateChanged'' (FateChanged this (fate c2 - oldFate)))"

subsection \<open>Covert\<close>

definition canBeBypassedByCovert :: "card \<Rightarrow> bool" where
  "canBeBypassedByCovert c = (\<not> isCovert c)"

definition canUseCovertToBypass :: "game \<Rightarrow> card_ref \<Rightarrow> card_ref \<Rightarrow> bool" where
  "canUseCovertToBypass g this targetCard =
     (isCovert (cardObjects g this) \<and> canBeBypassedByCovert (cardObjects g targetCard))"

text \<open>The result is the value returned and the game after the call.\<close>

definition useCovertToBypass :: "game \<Rightarrow> card_ref \<Rightarrow> card_ref \<Rightarrow> bool \<times> game" where
  "useCovertToBypass g this targetCard =
     (if \<not> canUseCovertToBypass g this targetCard then (False, g)
      else
        (let g1 = setCard g targetCard ((cardObjects g targetCard)\<lparr>covert := True\<rparr>);
             g2 = setCard g1 this ((cardObjects g1 this)\<lparr>covertTarget := Some targetCard\<rparr>)
         in (True, g2)))"

subsection \<open>Leaving play\<close>

definition resetForConflict :: "game \<Rightarrow> card_ref \<Rightarrow> game" where
  "resetForConflict g this =
     setCard g this ((cardObjects g this)\<lparr>stealth := False, inConflict := False\<rparr>)"

text \<open>
  Modelled from the spec: \<open>BaseCard.leavesPlay\<close>, called last through \<open>super\<close>, is not
  among the sources. The spec gives leaving play no effect beyond the resets and payouts
  that \<open>DrawCard.leavesPlay\<close> performs itself, so the call changes nothing of this model.
\<close>

definition super_leavesPlay :: "game \<Rightarrow> card_ref \<Rightarrow> game" where
  "super_leavesPlay g this = g"

definition honorPayout :: "game \<Rightarrow> card_ref \<Rightarrow> game" where
  "honorPayout g this =
     (let c = cardObjects g this in
      if isHonored c then
        (let g1 = addHonor g (controller c) 1;
             g2 = addMessage g1 ''{0} gains 1 honor due to {1}'s personal honor'' (controller c) this
         in setCard g2 this ((cardObjects g2 this)\<lparr>isHonored := False\<rparr>))
      else if isDishonored c then
        (let g1 = addHonor g (controller c) (- 1);
             g2 = addMessage g1 ''{0} loses 1 honor due to {1}'s personal honor'' (controller c) this
         in setCard g2 this ((cardObjects g2 this)\<lparr>isDishonored := False\<rparr>))
      else g)"

definition sincerityPayout :: "game \<Rightarrow> card_ref \<Rightarrow> game" where
  "sincerityPayout g this =
     (let c = cardObjects g this in
      if hasSincerity c then
        addMessage (drawCardsToHand g (controller c) 1)
          ''{0} draws a card due to {1}'s Sincerity'' (controller c) this
      else g)"

definition courtesyPayout :: "game \<Rightarrow> card_ref \<Rightarrow> game" where
  "courtesyPayout g this =
     (let c = cardObjects g this in
      if hasCourtesy c then
        addMessage (addFate g (controller c) 1)
          ''{0} gains a fate due to {1}'s Courtesy'' (controller c) this
      else g)"

text \<open>
  \<open>leavesPlay()\<close>: the four resets, then the three conditional payouts in the order of the
  source (\<open>honorPayout\<close>, \<open>sincerityPayout\<close> and \<open>courtesyPayout\<close> are its three
  \<open>if\<close> statements), then \<open>resetForConflict\<close> and the call of the base class.
\<close>

definition leavesPlay :: "game \<Rightarrow> card_ref \<Rightarrow> game" where
  "leavesPlay g this =
     (let g1 = setCard g this
                 ((cardObjects g this)\<lparr>bowed := False, inConflict := False, new := False, fate := 0\<rparr>);
          g2 = honorPayout g1 this;
          g3 = sincerityPayout g2 this;
          g4 = courtesyPayout g3 this;
          g5 = resetForConflict g4 this
      in super_leavesPlay g5 this)"

text \<open>
  The honor status of the data model: honored and dishonored exclude each other.
\<close>

definition honorExclusive :: "card \<Rightarrow> bool" where
  "honorExclusive c = (\<not> (isHonored c \<and> isDishonored c))"

section \<open>Creeping Oblivion\<close>

text \<open>
  The ability context, as far as the declaration reads it: \<open>context.player\<close>, and
  \<open>context.selects[name].choice\<close> for the select groups resolved so far.
\<close>

datatype error = TypeError

datatype gameAction = Purge

record abilityContext =
  player :: player_ref
  selects :: "string \<rightharpoonup> string"

text \<open>
  The \<open>choices\<close> of the target group \<open>select\<close>: each key with its condition. The second
  condition is \<open>opponent && opponent.discard.length > 0\<close>, falsy when there is no opponent.
\<close>

definition selectChoices :: "(string \<times> (game \<Rightarrow> abilityContext \<Rightarrow> bool)) list" where
  "selectChoices =
     [(''Mine'', \<lambda>g context. length (discard (playerObjects g (player context))) > 0),
      (''Opponent's'', \<lambda>g context.
         (case opponent (playerObjects g (player context)) of
            None \<Rightarrow> False
          | Some opp \<Rightarrow> length (discard (playerObjects g opp)) > 0))]"

text \<open>
  The target group \<open>cards\<close>. Its \<open>player\<close> function (the field \<open>targetPlayer\<close>) reads
  \<open>context.selects.select.choice\<close>, a \<open>TypeError\<close> while the group \<open>select\<close> is not
  resolved; its result is \<open>None\<close> when it is the opponent and there is none.
\<close>

record cardsTarget =
  dependsOn :: string
  mode :: string
  numCards :: nat
  targetPlayer :: "game \<Rightarrow> abilityContext \<Rightarrow> error + player_ref option"
  location :: string
  gameAction :: gameAction

definition cardsGroup :: cardsTarget where
  "cardsGroup =
     \<lparr>dependsOn = ''select'', mode = ''upTo'', numCards = 2,
      targetPlayer = (\<lambda>g context.
        (case selects context ''select'' of
           None \<Rightarrow> Inl TypeError
         | Some choice \<Rightarrow>
             Inr (if choice = ''Mine'' then Some (player context)
                  else opponent (playerObjects g (player context))))),
      location = ''discard'', gameAction = Purge\<rparr>"

text \<open>
  Modelled from the spec: the targeting pipeline that reads this declaration (\<open>Card.play\<close>
  and the target classes) is not among the sources. A choice of a select group is legal
  when its condition holds in the context at resolution time (the spec: legality predicates
  are boolean functions of the context, evaluated at resolution time).
\<close>

definition choiceLegal :: "game \<Rightarrow> abilityContext \<Rightarrow> string \<Rightarrow> bool" where
  "choiceLegal g context key =
     (case map_of selectChoices key of None \<Rightarrow> False | Some condition \<Rightarrow> condition g context)"

text \<open>
  Modelled from the spec: resolving a select group, which is not among the sources, records
  the choice under the name of the group, where a dependent group reads it (the spec: the
  context threads the resolved target selections).
\<close>

definition resolveSelect :: "abilityContext \<Rightarrow> string \<Rightarrow> string \<Rightarrow> abilityContext" where
  "resolveSelect context name choice = context\<lparr>selects := (selects context)(name \<mapsto> choice)\<rparr>"

text \<open>
  Modelled from the spec: the zones of a player are not among the sources. The cards of a
  player in a location; the discard pile is the one location this model holds.
\<close>

definition zone :: "game \<Rightarrow> player_ref \<Rightarrow> string \<Rightarrow> card_ref list" where
  "zone g p loc = (if loc = ''discard'' then discard (playerObjects g p) else [])"

text \<open>
  Modelled from the spec: the resolution of a card group is not among the sources. A
  dependent group takes its player from the earlier choice; its candidates are the cards of
  that player in the location of the group that the game action of the group can affect;
  a selection in mode \<open>upTo\<close> is any \<open>0..numCards\<close> distinct candidates (the spec:
  up-to-N, 0..N inclusive). The legality check of the purge action is not among the
  sources either and is the parameter \<open>canAffect\<close>.
\<close>

definition legalSelection ::
  "(game \<Rightarrow> card_ref \<Rightarrow> bool) \<Rightarrow> cardsTarget \<Rightarrow> game \<Rightarrow> abilityContext \<Rightarrow> card_ref list \<Rightarrow> bool" where
  "legalSelection canAffect t g context sel =
     (case targetPlayer t g context of
        Inr (Some p) \<Rightarrow>
          mode t = ''upTo'' \<and> length sel \<le> numCards t \<and> distinct sel \<and>
          list_all (\<lambda>c. c \<in> set (zone g p (location t)) \<and> canAffect g c) sel
      | _ \<Rightarrow> False)"

section \<open>The deck list endpoint\<close>

text \<open>
  \<open>GET /api/decks\<close>. A card of a stored deck has an \<open>enhancements\<close> array or none
  (\<open>None\<close>: the field is missing or falsy). Of a deck the handler reads \<open>usageCount\<close>,
  \<open>cards\<close> and \<open>verified\<close> (falsy when missing), and it writes \<open>usageLevel\<close>,
  \<open>usageCount\<close>, \<open>basicRules\<close> and \<open>notVerified\<close>; a field not yet written is \<open>None\<close>.
  The three thresholds come from the configuration service, which is not among the sources,
  and are parameters.
\<close>

record deckCard =
  enhancements :: "string list option"

record deck =
  usageCount :: "int option"
  cards :: "deckCard list"
  verified :: bool
  usageLevel :: "int option"
  basicRules :: "bool option"
  notVerified :: "bool option"

record lobbyConfig =
  lowerDeckThreshold :: int
  middleDeckThreshold :: int
  upperDeckThreshold :: int

text \<open>\<open>deck.usageCount > threshold\<close>: false when the count is \<open>undefined\<close>.\<close>

definition exceeds :: "int option \<Rightarrow> int \<Rightarrow> bool" where
  "exceeds v t = (case v of None \<Rightarrow> False | Some n \<Rightarrow> n > t)"

text \<open>
  \<open>c.enhancements && c.enhancements[0] === ''\<close>: on an empty array the entry \<open>0\<close> is
  \<open>undefined\<close>, which is not the empty string.
\<close>

definition firstIsEmptyString :: "deckCard \<Rightarrow> bool" where
  "firstIsEmptyString c =
     (case enhancements c of
        None \<Rightarrow> False
      | Some [] \<Rightarrow> False
      | Some (e # es) \<Rightarrow> e = [])"

text \<open>The function mapped over the decks found: the three threshold tests, then the flags.\<close>

definition projectDeck :: "lobbyConfig \<Rightarrow> deck \<Rightarrow> deck" where
  "projectDeck cfg deck =
     (let l0 = 0;
          l1 = (if exceeds (usageCount deck) (lowerDeckThreshold cfg) then 1 else l0);
          l2 = (if exceeds (usageCount deck) (middleDeckThreshold cfg) then 2 else l1);
          deckUsageLevel = (if exceeds (usageCount deck) (upperDeckThreshold cfg) then 3 else l2);
          deck1 = deck\<lparr>usageLevel := Some deckUsageLevel, usageCount := None\<rparr>;
          hasEnhancementsSet = (if list_ex firstIsEmptyString (cards deck1) then False else True);
          hasEnhancements =
            (if list_ex (\<lambda>c. enhancements c \<noteq> None) (cards deck1) then True else False)
      in deck1\<lparr>basicRules := Some hasEnhancementsSet,
              notVerified := Some (hasEnhancements \<and> \<not> verified deck1)\<rparr>)"

text \<open>
  The \<open>decks\<close> of the response: \<open>numDecks\<close> is the count the deck service reports and
  \<open>found\<close> what \<open>findForUser\<close> returns, asked only when the count is positive.
\<close>

definition getDecks :: "lobbyConfig \<Rightarrow> int \<Rightarrow> deck list \<Rightarrow> deck list" where
  "getDecks cfg numDecks found = (if numDecks > 0 then map (projectDeck cfg) found else [])"

section \<open>Sample objects\<close>

text \<open>
  A character with printed military 3 and political 0, glory 2 and the covert keyword,
  with 2 fate, bowed and in a conflict, hosting one attachment (card 1) of military bonus
  \<open>+2\<close> and political bonus \<open>-1\<close>; every other card is the plain attachment. In
  \<open>someGame\<close> every player is in the conflict phase with 10 honor; \<open>setupGame\<close> is the
  same game in the setup phase.
\<close>

definition characterData :: cardData where
  "characterData =
     \<lparr>military = Num 3, political = Num 0, military_bonus = None, political_bonus = None\<rparr>"

definition attachmentData :: cardData where
  "attachmentData =
     \<lparr>military = Null, political = Null, military_bonus = Some ''+2'',
      political_bonus = Some ''-1''\<rparr>"

definition blankCard :: card where
  "blankCard =
     \<lparr>cardData = attachmentData, controller = 0, attachments = [], cardKeywords = [],
      militarySkillModifier = 0, politicalSkillModifier = 0, fate = 0, glory = Undefined,
      bowed = False, inConflict = False, isHonored = False, isDishonored = False, new = False,
      stealth = False, covert = False, covertTarget = None\<rparr>"

definition characterCard :: card where
  "characterCard =
     blankCard\<lparr>cardData := characterData, attachments := [1], cardKeywords := [''covert''],
       fate := 2, glory := Num 2, bowed := True, inConflict := True\<rparr>"

definition somePlayer :: player where
  "somePlayer =
     \<lparr>phase = ''conflict'', discard = [], opponent = None, playerHonor = 10, playerFate = 0,
      cardsDrawn = 0\<rparr>"

definition someGame :: game where
  "someGame =
     \<lparr>cardObjects = (\<lambda>r. if r = 0 then characterCard else blankCard),
      playerObjects = (\<lambda>p. somePlayer), events = [], messages = []\<rparr>"

definition setupGame :: game where
  "setupGame = someGame\<lparr>playerObjects := (\<lambda>p. somePlayer\<lparr>phase := ''setup''\<rparr>)\<rparr>"

text \<open>
  A game in which player 0 has the cards 5, 6 and 7 in the discard pile and the opponent,
  player 1, has none; a context of player 0; and two stored decks.
\<close>

definition discardGame :: game where
  "discardGame =
     someGame\<lparr>playerObjects :=
       (\<lambda>p. if p = 0 then somePlayer\<lparr>discard := [5, 6, 7], opponent := Some 1\<rparr>
            else somePlayer\<lparr>opponent := Some 0\<rparr>)\<rparr>"

definition someContext :: abilityContext where
  "someContext = \<lparr>player = 0, selects = Map.empty\<rparr>"

definition someConfig :: lobbyConfig where
  "someConfig = \<lparr>lowerDeckThreshold = 10, middleDeckThreshold = 50, upperDeckThreshold = 100\<rparr>"

definition unassignedDeck :: deck where
  "unassignedDeck =
     \<lparr>usageCount = Some 60,
      cards = [\<lparr>enhancements = None\<rparr>, \<lparr>enhancements = Some ['''']\<rparr>],
      verified = False, usageLevel = None, basicRules = None, notVerified = None\<rparr>"

definition plainDeck :: deck where
  "plainDeck =
     \<lparr>usageCount = Some 3, cards = [\<lparr>enhancements = None\<rparr>],
      verified = False, usageLevel = None, basicRules = None, notVerified = None\<rparr>"

section \<open>Auxiliary facts\<close>

lemmas parseInt_eval =
  parseInt_def parseIntString_def stripSign_def stripPrefix_def isWhiteSpace_def isDigitOf_def
  digitValue_def digitsValue_def

lemma foldl_js_plus_Num:
  "map f as = map Num bs \<Longrightarrow>
   foldl (\<lambda>skill a. js_plus skill (f a)) (Num acc) as = Num (acc + sum_list bs)"
proof (induction as arbitrary: acc bs)
  case Nil
  then show ?case by simp
next
  case (Cons a as)
  then obtain b bs' where bs: "bs = b # bs'" "f a = Num b" "map f as = map Num bs'"
    by (cases bs) auto
  have "js_plus (Num acc) (f a) = Num (acc + b)"
    by (simp add: js_plus_def bs)
  with Cons.IH [OF bs(3), of "acc + b"] show ?case
    by (simp add: bs add.assoc)
qed

lemma Math_max_nonneg: "Math_max (Num 0) v = Num n \<Longrightarrow> 0 \<le> n"
  by (cases v) (auto simp add: Math_max_def)

lemma honor_flags:
  "cardObjects (honor g this) r =
     (if r = this then
        (let c = cardObjects g this in
         if isDishonored c then c\<lparr>isDishonored := False\<rparr>
         else if \<not> isHonored c then c\<lparr>isHonored := True\<rparr> else c)
      else cardObjects g r)"
  by (simp add: honor_def setCard_def Let_def)

lemma dishonor_flags:
  "cardObjects (dishonor g this) r =
     (if r = this then
        (let c = cardObjects g this in
         if isHonored c then c\<lparr>isHonored := False\<rparr>
         else if \<not> isDishonored c then c\<lparr>isDishonored := True\<rparr> else c)
      else cardObjects g r)"
  by (simp add: dishonor_def setCard_def Let_def)

lemma addMessage_simps:
  "cardObjects (addMessage g m p c) = cardObjects g"
  "playerObjects (addMessage g m p c) = playerObjects g"
  by (simp_all add: addMessage_def)

lemma setCard_simps:
  "cardObjects (setCard g r c) = (cardObjects g)(r := c)"
  "playerObjects (setCard g r c) = playerObjects g"
  by (simp_all add: setCard_def)

lemma addHonor_simps:
  "cardObjects (addHonor g p n) = cardObjects g"
  "playerHonor (playerObjects (addHonor g p n) q) =
     playerHonor (playerObjects g q) + (if q = p then n else 0)"
  by (simp_all add: addHonor_def setPlayer_def)

lemma addFate_simps:
  "cardObjects (addFate g p n) = cardObjects g"
  "playerHonor (playerObjects (addFate g p n) q) = playerHonor (playerObjects g q)"
  by (simp_all add: addFate_def setPlayer_def)

lemma drawCardsToHand_simps:
  "cardObjects (drawCardsToHand g p n) = cardObjects g"
  "playerHonor (playerObjects (drawCardsToHand g p n) q) = playerHonor (playerObjects g q)"
  by (simp_all add: drawCardsToHand_def setPlayer_def)

lemma honorPayout_card:
  "cardObjects (honorPayout g this) this =
     (if isHonored (cardObjects g this) then (cardObjects g this)\<lparr>isHonored := False\<rparr>
      else (cardObjects g this)\<lparr>isDishonored := False\<rparr>)"
  by (simp add: honorPayout_def Let_def addMessage_simps setCard_simps addHonor_simps)

lemma honorPayout_honor:
  "playerHonor (playerObjects (honorPayout g this) q) =
     playerHonor (playerObjects g q) +
       (if q = controller (cardObjects g this) then
          (if isHonored (cardObjects g this) then 1
           else if isDishonored (cardObjects g this) then - 1 else 0)
        else 0)"
  by (simp add: honorPayout_def Let_def addMessage_simps setCard_simps addHonor_simps)

lemma keywordPayouts_simps:
  "cardObjects (sincerityPayout g this) = cardObjects g"
  "cardObjects (courtesyPayout g this) = cardObjects g"
  "playerHonor (playerObjects (sincerityPayout g this) q) = playerHonor (playerObjects g q)"
  "playerHonor (playerObjects (courtesyPayout g this) q) = playerHonor (playerObjects g q)"
  by (simp_all add: sincerityPayout_def courtesyPayout_def Let_def addMessage_simps
      addFate_simps drawCardsToHand_simps)

lemma leavesPlay_card:
  "cardObjects (leavesPlay g this) this =
     (if isHonored (cardObjects g this)
      then (cardObjects g this)\<lparr>bowed := False, inConflict := False, new := False, fate := 0,
             isHonored := False, stealth := False, inConflict := False\<rparr>
      else (cardObjects g this)\<lparr>bowed := False, inConflict := False, new := False, fate := 0,
             isDishonored := False, stealth := False, inConflict := False\<rparr>)"
  by (simp add: leavesPlay_def Let_def super_leavesPlay_def resetForConflict_def
      keywordPayouts_simps honorPayout_card setCard_simps)

lemma leavesPlay_honor:
  "playerHonor (playerObjects (leavesPlay g this) q) =
     playerHonor (playerObjects g q) +
       (if q = controller (cardObjects g this) then
          (if isHonored (cardObjects g this) then 1
           else if isDishonored (cardObjects g this) then - 1 else 0)
        else 0)"
  by (simp add: leavesPlay_def Let_def super_leavesPlay_def resetForConflict_def
      keywordPayouts_simps honorPayout_honor setCard_simps)

lemma firstIsEmptyString_iff:
  "firstIsEmptyString c \<longleftrightarrow> (\<exists>es. enhancements c = Some ('''' # es))"
  by (simp add: firstIsEmptyString_def split: option.splits list.splits)

lemma projectDeck_flags:
  "basicRules (projectDeck cfg d) = Some (\<not> list_ex firstIsEmptyString (cards d))"
  "notVerified (projectDeck cfg d) =
     Some (list_ex (\<lambda>c. enhancements c \<noteq> None) (cards d) \<and> \<not> verified d)"
  by (simp_all add: projectDeck_def Let_def)

section \<open>The claims\<close>

subsection \<open>Effective skill\<close>

text \<open>
  Claim C1. Outside the setup phase and with the printed value not requested, a card with
  a printed military value \<open>m\<close>, whose attachments' military bonuses parse to the integers
  \<open>bs\<close> and whose glory, where the honor status makes it count, is the number \<open>gl\<close>, has
  military skill \<open>max(0, m + modifier + sum of bs + (gl if honored) - (gl if dishonored))\<close>;
  the same holds of the political skill with the political values. Whatever the card holds,
  a number returned by either query is never negative.
\<close>

theorem skill_is_clamped_sum:
  "phase (playerObjects g (controller (cardObjects g this))) \<noteq> ''setup'' \<Longrightarrow>
   (let c = cardObjects g this in
    (military (cardData c) = Num m \<and>
     map (\<lambda>a. parseInt (military_bonus (cardData (cardObjects g a)))) (attachments c) = map Num bs \<and>
     (isHonored c \<or> isDishonored c \<longrightarrow> glory c = Num gl) \<longrightarrow>
       getMilitarySkill g this False =
         Num (max 0 (m + militarySkillModifier c + sum_list bs +
                     (if isHonored c then gl else 0) - (if isDishonored c then gl else 0)))) \<and>
    (political (cardData c) = Num m \<and>
     map (\<lambda>a. parseInt (political_bonus (cardData (cardObjects g a)))) (attachments c) = map Num bs \<and>
     (isHonored c \<or> isDishonored c \<longrightarrow> glory c = Num gl) \<longrightarrow>
       getPoliticalSkill g this False =
         Num (max 0 (m + politicalSkillModifier c + sum_list bs +
                     (if isHonored c then gl else 0) - (if isDishonored c then gl else 0)))) \<and>
    (\<forall>n. getMilitarySkill g this False = Num n \<longrightarrow> 0 \<le> n) \<and>
    (\<forall>n. getPoliticalSkill g this False = Num n \<longrightarrow> 0 \<le> n))"
proof -
  assume ph: "phase (playerObjects g (controller (cardObjects g this))) \<noteq> ''setup''"
  define c where "c = cardObjects g this"
  have mil: "getMilitarySkill g this False =
      Num (max 0 (m + militarySkillModifier c + sum_list bs +
                  (if isHonored c then gl else 0) - (if isDishonored c then gl else 0)))"
    if "military (cardData c) = Num m"
      and "map (\<lambda>a. parseInt (military_bonus (cardData (cardObjects g a)))) (attachments c) = map Num bs"
      and "isHonored c \<or> isDishonored c \<longrightarrow> glory c = Num gl"
    using ph that(1,3) foldl_js_plus_Num [OF that(2), of 0]
    by (auto simp add: getMilitarySkill_def c_def Let_def js_plus_def js_minus_def Math_max_def)
  have pol: "getPoliticalSkill g this False =
      Num (max 0 (m + politicalSkillModifier c + sum_list bs +
                  (if isHonored c then gl else 0) - (if isDishonored c then gl else 0)))"
    if "political (cardData c) = Num m"
      and "map (\<lambda>a. parseInt (political_bonus (cardData (cardObjects g a)))) (attachments c) = map Num bs"
      and "isHonored c \<or> isDishonored c \<longrightarrow> glory c = Num gl"
    using ph that(1,3) foldl_js_plus_Num [OF that(2), of 0]
    by (auto simp add: getPoliticalSkill_def c_def Let_def js_plus_def js_minus_def Math_max_def)
  have mil0: "0 \<le> n" if "getMilitarySkill g this False = Num n" for n
    using ph that
    by (auto simp add: getMilitarySkill_def Let_def split: if_splits dest: Math_max_nonneg)
  have pol0: "0 \<le> n" if "getPoliticalSkill g this False = Num n" for n
    using ph that
    by (auto simp add: getPoliticalSkill_def Let_def split: if_splits dest: Math_max_nonneg)
  show ?thesis
    unfolding Let_def c_def [symmetric] using mil pol mil0 pol0 by blast
qed

text \<open>
  The sample character: honored, \<open>3 + 2 + 2 = 7\<close> military and \<open>0 - 1 + 2 = 1\<close>
  political; dishonored, \<open>3 + 2 - 2 = 3\<close> and \<open>max(0, 0 - 1 - 2) = 0\<close>; with a modifier of
  \<open>-100\<close>, 0.
\<close>

theorem skill_is_clamped_sum_witness:
  "getMilitarySkill (honor someGame 0) 0 False = Num 7 \<and>
   getMilitarySkill (dishonor someGame 0) 0 False = Num 3 \<and>
   getPoliticalSkill (honor someGame 0) 0 False = Num 1 \<and>
   getPoliticalSkill (dishonor someGame 0) 0 False = Num 0 \<and>
   getMilitarySkill (modifyMilitarySkill someGame 0 (- 100) True) 0 False = Num 0"
  using skill_is_clamped_sum [of "honor someGame 0" 0 3 "[2]" 2]
    skill_is_clamped_sum [of "dishonor someGame 0" 0 3 "[2]" 2]
    skill_is_clamped_sum [of "honor someGame 0" 0 0 "[- 1]" 2]
    skill_is_clamped_sum [of "dishonor someGame 0" 0 0 "[- 1]" 2]
    skill_is_clamped_sum [of "modifyMilitarySkill someGame 0 (- 100) True" 0 3 "[2]" 2]
  by (simp add: honor_def dishonor_def modifyMilitarySkill_def raiseEvent_def setCard_def Let_def
      someGame_def somePlayer_def characterCard_def blankCard_def characterData_def
      attachmentData_def parseInt_eval)

text \<open>
  Claim C4. In the setup phase, or when the printed value is requested, the queries return
  \<open>cardData.military || undefined\<close> (resp. political): the printed number when it is not
  0, and \<open>undefined\<close> when there is none. A printed 0 is falsy and reads as \<open>undefined\<close>
  too: the sample character has printed political 0, and the query answers \<open>undefined\<close>
  both with the printed value requested and in the setup phase, while its printed military
  3 is returned as it is.
\<close>

theorem printed_zero_reads_undefined:
  "political (cardData (cardObjects someGame 0)) = Num 0 \<and>
   getPoliticalSkill someGame 0 True = Undefined \<and>
   getPoliticalSkill setupGame 0 False = Undefined \<and>
   getMilitarySkill someGame 0 True = Num 3"
  by (simp add: getPoliticalSkill_def getMilitarySkill_def js_or_def Let_def setupGame_def
      someGame_def somePlayer_def characterCard_def blankCard_def characterData_def)

subsection \<open>Honor status\<close>

text \<open>
  Claim C2. Every card that is not both honored and dishonored stays so under \<open>honor()\<close>
  and \<open>dishonor()\<close>, called on it or on any other card. \<open>honor()\<close> on a card that is
  honored (and not dishonored) changes nothing, and on a dishonored card it clears the
  dishonored flag and leaves the honored flag as it was; symmetrically for \<open>dishonor()\<close>.
\<close>

theorem honor_dishonor_exclusive:
  "(honorExclusive (cardObjects g r) \<longrightarrow>
      honorExclusive (cardObjects (honor g this) r) \<and>
      honorExclusive (cardObjects (dishonor g this) r)) \<and>
   (isHonored (cardObjects g this) \<and> \<not> isDishonored (cardObjects g this) \<longrightarrow>
      honor g this = g) \<and>
   (isDishonored (cardObjects g this) \<and> \<not> isHonored (cardObjects g this) \<longrightarrow>
      dishonor g this = g) \<and>
   (isDishonored (cardObjects g this) \<longrightarrow>
      honor g this = setCard g this ((cardObjects g this)\<lparr>isDishonored := False\<rparr>) \<and>
      \<not> isDishonored (cardObjects (honor g this) this) \<and>
      isHonored (cardObjects (honor g this) this) = isHonored (cardObjects g this)) \<and>
   (isHonored (cardObjects g this) \<longrightarrow>
      dishonor g this = setCard g this ((cardObjects g this)\<lparr>isHonored := False\<rparr>) \<and>
      \<not> isHonored (cardObjects (dishonor g this) this) \<and>
      isDishonored (cardObjects (dishonor g this) this) = isDishonored (cardObjects g this))"
  by (simp add: honor_flags dishonor_flags honorExclusive_def Let_def)
     (simp add: honor_def dishonor_def setCard_def Let_def)

theorem honor_dishonor_exclusive_witness:
  "honorExclusive (cardObjects (honor someGame 0) 0) \<and>
   honorExclusive (cardObjects (dishonor someGame 0) 0) \<and>
   honor (honor someGame 0) 0 = honor someGame 0 \<and>
   dishonor (dishonor someGame 0) 0 = dishonor someGame 0 \<and>
   \<not> isDishonored (cardObjects (honor (dishonor someGame 0) 0) 0) \<and>
   \<not> isHonored (cardObjects (honor (dishonor someGame 0) 0) 0)"
proof -
  have n: "honorExclusive (cardObjects someGame 0)"
    by (simp add: honorExclusive_def someGame_def characterCard_def blankCard_def)
  have h: "isHonored (cardObjects (honor someGame 0) 0) \<and>
      \<not> isDishonored (cardObjects (honor someGame 0) 0)"
    by (simp add: honor_flags Let_def someGame_def characterCard_def blankCard_def)
  have d: "isDishonored (cardObjects (dishonor someGame 0) 0) \<and>
      \<not> isHonored (cardObjects (dishonor someGame 0) 0)"
    by (simp add: dishonor_flags Let_def someGame_def characterCard_def blankCard_def)
  from n honor_dishonor_exclusive [of someGame 0 0]
  have 1: "honorExclusive (cardObjects (honor someGame 0) 0) \<and>
      honorExclusive (cardObjects (dishonor someGame 0) 0)"
    by blast
  from h honor_dishonor_exclusive [of "honor someGame 0" 0 0]
  have 2: "honor (honor someGame 0) 0 = honor someGame 0"
    by blast
  from d honor_dishonor_exclusive [of "dishonor someGame 0" 0 0]
  have 3: "dishonor (dishonor someGame 0) 0 = dishonor someGame 0 \<and>
      \<not> isDishonored (cardObjects (honor (dishonor someGame 0) 0) 0) \<and>
      isHonored (cardObjects (honor (dishonor someGame 0) 0) 0) =
        isHonored (cardObjects (dishonor someGame 0) 0)"
    by blast
  from 1 2 3 d show ?thesis
    by blast
qed
text \<open>
  Claim C3, amended. \<open>honor()\<close> and then \<open>dishonor()\<close> leave the card not honored; it is
  dishonored afterwards exactly when it was dishonored (and not honored) before. From the
  neutral and from the honored state the card ends neither honored nor dishonored.
\<close>

theorem honor_then_dishonor:
  "\<not> isHonored (cardObjects (dishonor (honor g this) this) this) \<and>
   isDishonored (cardObjects (dishonor (honor g this) this) this) =
     (isDishonored (cardObjects g this) \<and> \<not> isHonored (cardObjects g this))"
  by (auto simp add: honor_flags dishonor_flags Let_def)

theorem honor_then_dishonor_witness:
  "isDishonored (cardObjects (dishonor someGame 0) 0) \<and>
   isDishonored (cardObjects (dishonor (honor (dishonor someGame 0) 0) 0) 0) \<and>
   \<not> isHonored (cardObjects (dishonor (honor (dishonor someGame 0) 0) 0) 0)"
  using honor_then_dishonor [of "dishonor someGame 0" 0]
  by (simp add: dishonor_flags Let_def someGame_def characterCard_def blankCard_def)

text \<open>
  The sample character starts neither honored nor dishonored; after \<open>honor()\<close> and
  \<open>dishonor()\<close> it is not dishonored.
\<close>

theorem honor_then_dishonor_counterexample:
  "\<not> (isDishonored (cardObjects (dishonor (honor someGame 0) 0) 0) \<and>
      \<not> isHonored (cardObjects (dishonor (honor someGame 0) 0) 0))"
  by (simp add: honor_flags dishonor_flags Let_def someGame_def characterCard_def blankCard_def)

subsection \<open>Fate\<close>

text \<open>
  Claim C5. \<open>modifyFate(delta)\<close> sets the fate of the card to \<open>max(0, old fate + delta)\<close>,
  which is not negative, and raises one event \<open>onCardFateChanged\<close> whose payload names the
  card and carries the new fate minus the old fate.
\<close>

theorem modifyFate_clamps:
  "fate (cardObjects (modifyFate g this delta) this) = max 0 (fate (cardObjects g this) + delta) \<and>
   0 \<le> fate (cardObjects (modifyFate g this delta) this) \<and>
   events (modifyFate g this delta) =
     events g @
       [(''onCardFateChanged'',
         FateChanged this
           (fate (cardObjects (modifyFate g this delta) this) - fate (cardObjects g this)))]"
  by (simp add: modifyFate_def setCard_def raiseEvent_def Let_def max_def)

text \<open>The sample character has 2 fate: \<open>modifyFate(-5)\<close> leaves 0 and reports \<open>-2\<close>.\<close>

theorem modifyFate_clamps_witness:
  "fate (cardObjects (modifyFate someGame 0 (- 5)) 0) = 0 \<and>
   events (modifyFate someGame 0 (- 5)) = [(''onCardFateChanged'', FateChanged 0 (- 2))]"
  using modifyFate_clamps [of someGame 0 "- 5"]
  by (simp add: someGame_def characterCard_def blankCard_def)

subsection \<open>Leaving play\<close>

text \<open>
  Claim C6. When an honored card leaves play, its controller's honor grows by exactly 1
  and no other player's honor changes; the card is then not honored, not bowed, not in a
  conflict and has 0 fate. A second \<open>leavesPlay()\<close> on the card raises nobody's honor, and
  leaves the honor of every player as it is when the card was not also dishonored.
\<close>

theorem leavesPlay_honored:
  "isHonored (cardObjects g this) \<longrightarrow>
     playerHonor (playerObjects (leavesPlay g this) q) =
       playerHonor (playerObjects g q) + (if q = controller (cardObjects g this) then 1 else 0) \<and>
     \<not> isHonored (cardObjects (leavesPlay g this) this) \<and>
     \<not> bowed (cardObjects (leavesPlay g this) this) \<and>
     \<not> inConflict (cardObjects (leavesPlay g this) this) \<and>
     fate (cardObjects (leavesPlay g this) this) = 0 \<and>
     playerHonor (playerObjects (leavesPlay (leavesPlay g this) this) q) \<le>
       playerHonor (playerObjects (leavesPlay g this) q) \<and>
     (\<not> isDishonored (cardObjects g this) \<longrightarrow>
        playerHonor (playerObjects (leavesPlay (leavesPlay g this) this) q) =
          playerHonor (playerObjects (leavesPlay g this) q))"
proof
  assume h: "isHonored (cardObjects g this)"
  have c: "cardObjects (leavesPlay g this) this =
      (cardObjects g this)\<lparr>bowed := False, inConflict := False, new := False, fate := 0,
         isHonored := False, stealth := False, inConflict := False\<rparr>"
    using h by (simp add: leavesPlay_card)
  have again: "playerHonor (playerObjects (leavesPlay (leavesPlay g this) this) q) =
      playerHonor (playerObjects (leavesPlay g this) q) +
        (if q = controller (cardObjects g this) then
           (if isDishonored (cardObjects g this) then - 1 else 0)
         else 0)"
    by (simp add: leavesPlay_honor [of "leavesPlay g this"] c)
  show "playerHonor (playerObjects (leavesPlay g this) q) =
       playerHonor (playerObjects g q) + (if q = controller (cardObjects g this) then 1 else 0) \<and>
     \<not> isHonored (cardObjects (leavesPlay g this) this) \<and>
     \<not> bowed (cardObjects (leavesPlay g this) this) \<and>
     \<not> inConflict (cardObjects (leavesPlay g this) this) \<and>
     fate (cardObjects (leavesPlay g this) this) = 0 \<and>
     playerHonor (playerObjects (leavesPlay (leavesPlay g this) this) q) \<le>
       playerHonor (playerObjects (leavesPlay g this) q) \<and>
     (\<not> isDishonored (cardObjects g this) \<longrightarrow>
        playerHonor (playerObjects (leavesPlay (leavesPlay g this) this) q) =
          playerHonor (playerObjects (leavesPlay g this) q))"
    using h by (simp add: c again leavesPlay_honor [of g])
qed

text \<open>
  The sample character, honored, bowed, in a conflict and with 2 fate: its controller goes
  from 10 to 11 honor, and stays at 11 when the card leaves play again.
\<close>

theorem leavesPlay_honored_witness:
  "isHonored (cardObjects (honor someGame 0) 0) \<and>
   playerHonor (playerObjects (honor someGame 0) 0) = 10 \<and>
   playerHonor (playerObjects (leavesPlay (honor someGame 0) 0) 0) = 11 \<and>
   \<not> isHonored (cardObjects (leavesPlay (honor someGame 0) 0) 0) \<and>
   \<not> bowed (cardObjects (leavesPlay (honor someGame 0) 0) 0) \<and>
   \<not> inConflict (cardObjects (leavesPlay (honor someGame 0) 0) 0) \<and>
   fate (cardObjects (leavesPlay (honor someGame 0) 0) 0) = 0 \<and>
   playerHonor (playerObjects (leavesPlay (leavesPlay (honor someGame 0) 0) 0) 0) = 11"
  using leavesPlay_honored [of "honor someGame 0" 0 0]
  by (simp add: honor_flags honor_def setCard_def Let_def someGame_def somePlayer_def
      characterCard_def blankCard_def)

subsection \<open>Events\<close>

text \<open>
  Claim C7, amended. \<open>modifyFate\<close>, \<open>modifyMilitarySkill\<close> and \<open>modifyPoliticalSkill\<close>
  each raise one named event whose payload describes the mutation: \<open>onCardFateChanged\<close>
  with the card and the change of fate applied, \<open>onCardMilitarySkillChanged\<close> and
  \<open>onCardPoliticalSkillChanged\<close> with the card, the amount added to the modifier and the
  \<open>applying\<close> flag. \<open>honor()\<close> and \<open>dishonor()\<close> raise no event.
\<close>

theorem mutations_raise_events:
  "events (modifyFate g this delta) =
     events g @
       [(''onCardFateChanged'',
         FateChanged this
           (fate (cardObjects (modifyFate g this delta) this) - fate (cardObjects g this)))] \<and>
   events (modifyMilitarySkill g this amount applying) =
     events g @ [(''onCardMilitarySkillChanged'', SkillChanged this amount applying)] \<and>
   militarySkillModifier (cardObjects (modifyMilitarySkill g this amount applying) this) =
     militarySkillModifier (cardObjects g this) + amount \<and>
   events (modifyPoliticalSkill g this amount applying) =
     events g @ [(''onCardPoliticalSkillChanged'', SkillChanged this amount applying)] \<and>
   politicalSkillModifier (cardObjects (modifyPoliticalSkill g this amount applying) this) =
     politicalSkillModifier (cardObjects g this) + amount \<and>
   events (honor g this) = events g \<and>
   events (dishonor g this) = events g"
  by (simp add: modifyFate_def modifyMilitarySkill_def modifyPoliticalSkill_def honor_def
      dishonor_def setCard_def raiseEvent_def Let_def)

theorem mutations_raise_events_witness:
  "events (modifyMilitarySkill someGame 0 4 True) =
     [(''onCardMilitarySkillChanged'', SkillChanged 0 4 True)] \<and>
   militarySkillModifier (cardObjects (modifyMilitarySkill someGame 0 4 True) 0) = 4 \<and>
   events (dishonor someGame 0) = []"
  using mutations_raise_events [of someGame 0 0 4 True]
  by (simp add: someGame_def characterCard_def blankCard_def)

text \<open>
  \<open>honor()\<close> on the sample character sets its honored flag, and the game has recorded no
  event.
\<close>

theorem honor_raises_no_event:
  "\<not> isHonored (cardObjects someGame 0) \<and>
   isHonored (cardObjects (honor someGame 0) 0) \<and>
   events (honor someGame 0) = []"
  by (simp add: honor_def setCard_def Let_def someGame_def characterCard_def blankCard_def)

subsection \<open>Creeping Oblivion\<close>

text \<open>
  Claim C8. The choice \<open>Mine\<close> is legal exactly when the discard pile of the acting player
  is not empty, and the choice \<open>Opponent's\<close> exactly when the player has an opponent whose
  discard pile is not empty. The group \<open>cards\<close> depends on the group \<open>select\<close>, has
  mode \<open>upTo\<close> with 2 cards and the location \<open>discard\<close>, and once \<open>select\<close> is resolved
  with a choice its player is the acting player when the choice is \<open>Mine\<close> and the
  opponent otherwise; a legal selection of \<open>cards\<close> then has at most 2 cards, all from
  the discard pile of that player.
\<close>

theorem creepingOblivion_targets:
  "(choiceLegal g context ''Mine'' \<longleftrightarrow> discard (playerObjects g (player context)) \<noteq> []) \<and>
   (choiceLegal g context ''Opponent's'' \<longleftrightarrow>
      (\<exists>opp. opponent (playerObjects g (player context)) = Some opp \<and>
             discard (playerObjects g opp) \<noteq> [])) \<and>
   dependsOn cardsGroup = ''select'' \<and> mode cardsGroup = ''upTo'' \<and>
   numCards cardsGroup = 2 \<and> location cardsGroup = ''discard'' \<and>
   targetPlayer cardsGroup g (resolveSelect context (dependsOn cardsGroup) choice) =
     Inr (if choice = ''Mine'' then Some (player context)
          else opponent (playerObjects g (player context))) \<and>
   (legalSelection canAffect cardsGroup g (resolveSelect context (dependsOn cardsGroup) choice) sel \<longrightarrow>
      length sel \<le> 2 \<and>
      (\<exists>p. (if choice = ''Mine'' then Some (player context)
            else opponent (playerObjects g (player context))) = Some p \<and>
           set sel \<subseteq> set (discard (playerObjects g p))))"
  by (auto simp add: choiceLegal_def selectChoices_def cardsGroup_def legalSelection_def
      resolveSelect_def zone_def list_all_iff split: option.splits sum.splits)

text \<open>
  Player 0 has the cards 5, 6 and 7 in the discard pile and the opponent has none: only
  \<open>Mine\<close> is legal, and the cards 5 and 7 are a legal selection after it.
\<close>

theorem creepingOblivion_targets_witness:
  "choiceLegal discardGame someContext ''Mine'' \<and>
   \<not> choiceLegal discardGame someContext ''Opponent's'' \<and>
   legalSelection (\<lambda>g c. True) cardsGroup discardGame
     (resolveSelect someContext ''select'' ''Mine'') [5, 7] \<and>
   set [5, 7] \<subseteq> set (discard (playerObjects discardGame 0))"
  using creepingOblivion_targets [of discardGame someContext "''Mine''" "\<lambda>g c. True" "[5, 7]"]
  by (simp add: choiceLegal_def selectChoices_def cardsGroup_def legalSelection_def
      resolveSelect_def zone_def discardGame_def someGame_def somePlayer_def someContext_def)

subsection \<open>The deck list\<close>

text \<open>
  Claim C9. In a deck returned by the deck list, \<open>basicRules\<close> is false exactly when some
  card of the stored deck has an enhancements list whose first entry is the empty string
  (and is true otherwise), and \<open>notVerified\<close> is true exactly when some card has an
  enhancements list and the deck is not verified (and is false otherwise).
\<close>

theorem deck_flags:
  "i < length (getDecks cfg numDecks found) \<Longrightarrow>
   (basicRules (getDecks cfg numDecks found ! i) = Some False \<longleftrightarrow>
      (\<exists>c \<in> set (cards (found ! i)). \<exists>es. enhancements c = Some ('''' # es))) \<and>
   (basicRules (getDecks cfg numDecks found ! i) \<noteq> Some False \<longrightarrow>
      basicRules (getDecks cfg numDecks found ! i) = Some True) \<and>
   (notVerified (getDecks cfg numDecks found ! i) = Some True \<longleftrightarrow>
      (\<exists>c \<in> set (cards (found ! i)). enhancements c \<noteq> None) \<and> \<not> verified (found ! i)) \<and>
   (notVerified (getDecks cfg numDecks found ! i) \<noteq> Some True \<longrightarrow>
      notVerified (getDecks cfg numDecks found ! i) = Some False)"
proof -
  assume i: "i < length (getDecks cfg numDecks found)"
  then have d: "getDecks cfg numDecks found ! i = projectDeck cfg (found ! i)"
    by (simp add: getDecks_def split: if_splits)
  show ?thesis
    unfolding d projectDeck_flags
    by (simp add: list_ex_iff firstIsEmptyString_iff)
qed

text \<open>
  Two decks found: the first has a card whose enhancements are still the empty string and
  is not verified, the second has no enhancements at all.
\<close>

theorem deck_flags_witness:
  "length (getDecks someConfig 2 [unassignedDeck, plainDeck]) = 2 \<and>
   basicRules (getDecks someConfig 2 [unassignedDeck, plainDeck] ! 0) = Some False \<and>
   notVerified (getDecks someConfig 2 [unassignedDeck, plainDeck] ! 0) = Some True \<and>
   basicRules (getDecks someConfig 2 [unassignedDeck, plainDeck] ! 1) = Some True \<and>
   notVerified (getDecks someConfig 2 [unassignedDeck, plainDeck] ! 1) = Some False"
proof -
  let ?found = "[unassignedDeck, plainDeck]"
  let ?ds = "getDecks someConfig 2 ?found"
  have len: "length ?ds = 2"
    by (simp add: getDecks_def)
  then have i0: "0 < length ?ds" and i1: "1 < length ?ds"
    by simp_all
  have a: "\<exists>c \<in> set (cards (?found ! 0)). \<exists>es. enhancements c = Some ('''' # es)"
    by (simp add: unassignedDeck_def)
  have b: "(\<exists>c \<in> set (cards (?found ! 0)). enhancements c \<noteq> None) \<and> \<not> verified (?found ! 0)"
    by (simp add: unassignedDeck_def)
  have c: "\<not> (\<exists>c \<in> set (cards (?found ! 1)). \<exists>es. enhancements c = Some ('''' # es))"
    by (simp add: plainDeck_def)
  have d: "\<not> (\<exists>c \<in> set (cards (?found ! 1)). enhancements c \<noteq> None)"
    by (simp add: plainDeck_def)
  from deck_flags [OF i0] a b
  have first: "basicRules (?ds ! 0) = Some False \<and> notVerified (?ds ! 0) = Some True"
    by blast
  from deck_flags [OF i1] c d
  have second: "basicRules (?ds ! 1) = Some True \<and> notVerified (?ds ! 1) = Some False"
    by blast
  from len first second show ?thesis
    by blast
qed
subsection \<open>Covert\<close>

text \<open>
  Claim C10. \<open>useCovertToBypass(targetCard)\<close> returns false and leaves the game as it is
  when the card lacks the covert keyword or the target has it; otherwise it returns true,
  and the game differs from the one before in exactly two fields: the \<open>covert\<close> flag of the
  target is set and the \<open>covertTarget\<close> of the card is the target.
\<close>

theorem useCovertToBypass_all_or_nothing:
  "(\<not> isCovert (cardObjects g this) \<or> isCovert (cardObjects g targetCard) \<longrightarrow>
      useCovertToBypass g this targetCard = (False, g)) \<and>
   (isCovert (cardObjects g this) \<and> \<not> isCovert (cardObjects g targetCard) \<longrightarrow>
      useCovertToBypass g this targetCard =
        (True,
         g\<lparr>cardObjects :=
             (cardObjects g)
               (targetCard := (cardObjects g targetCard)\<lparr>covert := True\<rparr>,
                this := (cardObjects g this)\<lparr>covertTarget := Some targetCard\<rparr>)\<rparr>))"
  by (auto simp add: useCovertToBypass_def canUseCovertToBypass_def canBeBypassedByCovert_def
      setCard_def Let_def)

text \<open>
  The sample character has the covert keyword and its attachment has not: the attachment
  cannot bypass the character, and the character bypasses the attachment.
\<close>

theorem useCovertToBypass_all_or_nothing_witness:
  "useCovertToBypass someGame 1 0 = (False, someGame) \<and>
   fst (useCovertToBypass someGame 0 1) \<and>
   covert (cardObjects (snd (useCovertToBypass someGame 0 1)) 1) \<and>
   covertTarget (cardObjects (snd (useCovertToBypass someGame 0 1)) 0) = Some 1"
  using useCovertToBypass_all_or_nothing [of someGame 1 0]
    useCovertToBypass_all_or_nothing [of someGame 0 1]
  by (simp add: someGame_def characterCard_def blankCard_def isCovert_def hasKeyword_def)

end
